theory Spec2Isabelle
  imports Complex_Main "HOL-Library.AList" "HOL-Library.Log_Nat" "HOL-Library.Sublist"
begin

section \<open>Python values used by Home.py\<close>

subsection \<open>Floats\<close>

text \<open>
  A Python float is an IEEE-754 double: not-a-number, one of the two infinities, or a
  finite value, kept here as the rational number the double denotes. The two signed zeros
  are one value \<open>Fin 0\<close>: the script only compares coordinates, and \<open>-0.0 == 0\<close> holds
  in Python.
\<close>

datatype pyfloat = NaN | NInf | PInf | Fin rat

text \<open>The comparison \<open>a <= b\<close> of two floats: false as soon as one side is NaN.\<close>

fun fle :: "pyfloat \<Rightarrow> pyfloat \<Rightarrow> bool" where
  "fle NaN b = False"
| "fle a NaN = False"
| "fle NInf b = True"
| "fle a PInf = True"
| "fle PInf b = False"
| "fle a NInf = False"
| "fle (Fin a) (Fin b) = (a \<le> b)"

text \<open>The comparison \<open>a == b\<close> of two floats: NaN equals nothing, itself included.\<close>

fun feq :: "pyfloat \<Rightarrow> pyfloat \<Rightarrow> bool" where
  "feq NaN b = False"
| "feq a NaN = False"
| "feq a b = (a = b)"

subsection \<open>Strings\<close>

text \<open>
  A Python \<open>str\<close> is a sequence of code points; a \<open>char\<close> stands for a code point below
  256. \<open>str.strip()\<close> removes the characters for which \<open>str.isspace\<close> holds from both
  ends; below 256 these are the code points 9 to 13, 28 to 32, 133 and 160.
\<close>

definition isspace :: "char \<Rightarrow> bool" where
  "isspace c = (let n = (of_char c :: nat)
     in (9 \<le> n \<and> n \<le> 13) \<or> (28 \<le> n \<and> n \<le> 32) \<or> n = 133 \<or> n = 160)"

definition strip :: "string \<Rightarrow> string" where
  "strip s = rev (dropWhile isspace (rev (dropWhile isspace s)))"

text \<open>\<open>s.replace(',', '.')\<close>: every comma becomes a full stop.\<close>

definition replace_comma :: "string \<Rightarrow> string" where
  "replace_comma s = map (\<lambda>c. if c = CHR '','' then CHR ''.'' else c) s"

subsection \<open>The builtin \<open>float\<close> on a string\<close>

text \<open>
  \<open>float(s)\<close> as CPython reads a string (\<open>None\<close>: it raises \<open>ValueError\<close>). Whitespace
  at both ends is dropped; an underscore may stand between two digits; then comes an
  optional sign and either \<open>inf\<close>, \<open>infinity\<close> or \<open>nan\<close> in any case, or a decimal
  number: digits with an optional point (at least one digit in all) and an optional
  exponent \<open>e\<close> or \<open>E\<close> with its own sign and at least one digit. The decimal value is
  rounded to the nearest double, ties to the even significand; past the largest double the
  result is an infinity, and what is too small becomes zero.
\<close>

definition isdigit :: "char \<Rightarrow> bool" where
  "isdigit c = (let n = (of_char c :: nat) in 48 \<le> n \<and> n \<le> 57)"

definition digit_value :: "char \<Rightarrow> int" where
  "digit_value c = of_char c - 48"

definition digits_value :: "string \<Rightarrow> int" where
  "digits_value ds = foldl (\<lambda>n c. 10 * n + digit_value c) 0 ds"

text \<open>Rounding a rational to a double: 53 significant bits, exponents down to \<open>-1074\<close>
  (the subnormal range), overflow from \<open>2 ^ 1024\<close> on. \<open>ilog2 a\<close> is the exponent \<open>k\<close>
  with \<open>2 ^ k \<le> a < 2 ^ (k + 1)\<close>, for a positive \<open>a\<close>.\<close>

definition pow2 :: "int \<Rightarrow> rat" where
  "pow2 e = (if 0 \<le> e then 2 ^ nat e else 1 / 2 ^ nat (- e))"

definition pow10 :: "int \<Rightarrow> rat" where
  "pow10 e = (if 0 \<le> e then 10 ^ nat e else 1 / 10 ^ nat (- e))"

definition ilog2 :: "rat \<Rightarrow> int" where
  "ilog2 a = (case quotient_of a of (n, d) \<Rightarrow>
     (let k = bitlen n - bitlen d in if pow2 k \<le> a then k else k - 1))"

definition round_half_even :: "rat \<Rightarrow> int" where
  "round_half_even a =
     (let f = \<lfloor>a\<rfloor>; d = a - of_int f
      in if d < 1 / 2 then f else if 1 / 2 < d then f + 1 else if even f then f else f + 1)"

definition round_double :: "rat \<Rightarrow> pyfloat" where
  "round_double q =
     (if q = 0 then Fin 0
      else let a = \<bar>q\<bar>;
               e = max (ilog2 a - 52) (- 1074);
               v = of_int (round_half_even (a / pow2 e)) * pow2 e
           in if 2 ^ 1024 \<le> v then (if q < 0 then NInf else PInf)
              else Fin (if q < 0 then - v else v))"

text \<open>
  The whitespace \<open>float\<close> drops: the code points 133 and 160 count as spaces, and of the
  ASCII range the characters 9 to 13 and 32 (28 to 31, which \<open>str.strip\<close> removes, are
  not among them).
\<close>

definition float_space :: "char \<Rightarrow> bool" where
  "float_space c = (let n = (of_char c :: nat)
     in (9 \<le> n \<and> n \<le> 13) \<or> n = 32 \<or> n = 133 \<or> n = 160)"

text \<open>The underscores are removed when each one stands after a digit and before a
  digit; \<open>prev\<close> is the character before.\<close>

fun underscores :: "char \<Rightarrow> string \<Rightarrow> string option" where
  "underscores prev [] = (if prev = CHR ''_'' then None else Some [])"
| "underscores prev (c # cs) =
     (if c = CHR ''_'' then (if isdigit prev then underscores c cs else None)
      else if prev = CHR ''_'' \<and> \<not> isdigit c then None
      else map_option ((#) c) (underscores c cs))"

definition lower :: "char \<Rightarrow> char" where
  "lower c = (let n = (of_char c :: nat) in if 65 \<le> n \<and> n \<le> 90 then char_of (n + 32) else c)"

definition split_sign :: "string \<Rightarrow> bool \<times> string" where
  "split_sign s = (case s of
      c # r \<Rightarrow> if c = CHR ''-'' then (True, r) else if c = CHR ''+'' then (False, r) else (False, s)
    | [] \<Rightarrow> (False, s))"

definition span_digits :: "string \<Rightarrow> string \<times> string" where
  "span_digits s = (takeWhile isdigit s, dropWhile isdigit s)"

definition parse_exponent :: "string \<Rightarrow> (int \<times> string) option" where
  "parse_exponent s = (case s of
      [] \<Rightarrow> Some (0, [])
    | c # r \<Rightarrow>
        if c = CHR ''e'' \<or> c = CHR ''E'' then
          (case split_sign r of (neg, r1) \<Rightarrow>
             (case span_digits r1 of (ds, r2) \<Rightarrow>
                if ds = [] then None
                else Some (if neg then - digits_value ds else digits_value ds, r2)))
        else Some (0, s))"

definition parse_number :: "string \<Rightarrow> rat option" where
  "parse_number s =
     (case span_digits s of (ip, r1) \<Rightarrow>
        (case (case r1 of c # r \<Rightarrow> if c = CHR ''.'' then span_digits r else ([], r1) | [] \<Rightarrow> ([], r1)) of
           (fp, r2) \<Rightarrow>
             if ip = [] \<and> fp = [] then None
             else (case parse_exponent r2 of
                     None \<Rightarrow> None
                   | Some (ex, r3) \<Rightarrow>
                       if r3 \<noteq> [] then None
                       else Some (of_int (digits_value (ip @ fp)) * pow10 (ex - int (length fp))))))"

definition py_float :: "string \<Rightarrow> pyfloat option" where
  "py_float s =
     (let t = rev (dropWhile float_space (rev (dropWhile float_space s)))
      in case (if CHR ''_'' \<in> set t then underscores (CHR 0x00) t else Some t) of
           None \<Rightarrow> None
         | Some u \<Rightarrow>
             (case split_sign u of (neg, r) \<Rightarrow>
                if map lower r = ''inf'' \<or> map lower r = ''infinity''
                then Some (if neg then NInf else PInf)
                else if map lower r = ''nan'' then Some NaN
                else (case parse_number r of
                        None \<Rightarrow> None
                      | Some q \<Rightarrow> Some (round_double (if neg then - q else q)))))"

section \<open>Data frames\<close>

text \<open>
  \<open>pd.read_csv(..., dtype=str)\<close> gives every cell as a string, or as the float NaN where
  the field is missing. After \<open>apply(clean_coord)\<close> a coordinate column holds floats.
  A row maps column names to cells; a frame is the list of its rows in order, each with its
  index label. \<open>read_csv\<close> labels the rows 0, 1, 2, ...
\<close>

datatype cell = Text string | Float pyfloat

type_synonym row = "(string \<times> cell) list"

type_synonym dataframe = "(nat \<times> row) list"

definition read_csv :: "row list \<Rightarrow> dataframe" where
  "read_csv rows = enumerate 0 rows"

text \<open>
  \<open>df[c]\<close>, the column \<open>c\<close> as a series. The selectors of the script only offer the
  frame's own columns, so the name is a key of every row; for a name that is no key the
  model reads the missing value.
\<close>

definition cell_of :: "row \<Rightarrow> string \<Rightarrow> cell" where
  "cell_of r c = (case map_of r c of Some v \<Rightarrow> v | None \<Rightarrow> Float NaN)"

definition column :: "dataframe \<Rightarrow> string \<Rightarrow> cell list" where
  "column df c = map (\<lambda>(i, r). cell_of r c) df"

text \<open>\<open>df[c] = values\<close>: the column is replaced in every row, position by position.\<close>

definition assign :: "dataframe \<Rightarrow> string \<Rightarrow> cell list \<Rightarrow> dataframe" where
  "assign df c vs = map (\<lambda>((i, r), v). (i, AList.update c v r)) (zip df vs)"

text \<open>
  A coordinate column read as floats. Both coordinate columns hold floats once
  \<open>clean_coord\<close> was applied (lemma \<open>cleaned_columns_float\<close> below), so the \<open>Text\<close>
  case is never met there.
\<close>

fun as_float :: "cell \<Rightarrow> pyfloat" where
  "as_float (Float v) = v"
| "as_float (Text s) = NaN"

definition float_column :: "dataframe \<Rightarrow> string \<Rightarrow> pyfloat list" where
  "float_column df c = map as_float (column df c)"

text \<open>Boolean series and their operators \<open>&\<close>, \<open>|\<close>, \<open>~\<close>; \<open>df.index\<close>, the labels
  of the rows; \<open>df[mask]\<close> keeps the rows at which the mask is true, in the frame's
  order.\<close>

definition mask_and :: "bool list \<Rightarrow> bool list \<Rightarrow> bool list" where
  "mask_and a b = map2 (\<and>) a b"

definition mask_or :: "bool list \<Rightarrow> bool list \<Rightarrow> bool list" where
  "mask_or a b = map2 (\<or>) a b"

definition mask_not :: "bool list \<Rightarrow> bool list" where
  "mask_not a = map Not a"

definition index :: "dataframe \<Rightarrow> nat list" where
  "index df = map fst df"

definition select :: "dataframe \<Rightarrow> bool list \<Rightarrow> dataframe" where
  "select df bs = map fst (filter snd (zip df bs))"

text \<open>\<open>s == 0\<close>, \<open>s.between(lo, hi)\<close> (both ends included) and \<open>s.notna()\<close> on a float
  series.\<close>

definition eq0 :: "pyfloat list \<Rightarrow> bool list" where
  "eq0 s = map (\<lambda>v. feq v (Fin 0)) s"

definition between :: "rat \<Rightarrow> rat \<Rightarrow> pyfloat list \<Rightarrow> bool list" where
  "between lo hi s = map (\<lambda>v. fle (Fin lo) v \<and> fle v (Fin hi)) s"

definition notna :: "pyfloat list \<Rightarrow> bool list" where
  "notna s = map (\<lambda>v. v \<noteq> NaN) s"

section \<open>Cleaning and categorising (Home.py, lines 77 to 106)\<close>

text \<open>
  \<open>clean_coord\<close>. The parameter \<open>F\<close> is Python's builtin \<open>float\<close> on a string:
  \<open>None\<close> where it raises, which the bare \<open>except\<close> turns into NaN. \<open>pd.isna\<close> holds of
  the missing cell only. A cell that already holds a float \<open>v\<close> is met on the second
  \<open>apply\<close> when both selectors name the same column: \<open>str(v)\<close> is then the repr of
  \<open>v\<close>, which has neither a comma nor surrounding whitespace and which \<open>float\<close> reads back
  as \<open>v\<close>.
\<close>

definition isna :: "cell \<Rightarrow> bool" where
  "isna val = (val = Float NaN)"

definition clean_coord :: "(string \<Rightarrow> pyfloat option) \<Rightarrow> cell \<Rightarrow> pyfloat" where
  "clean_coord F val =
     (if isna val then NaN
      else case val of
        Text s \<Rightarrow> (case F (replace_comma (strip s)) of Some v \<Rightarrow> v | None \<Rightarrow> NaN)
      | Float v \<Rightarrow> v)"

text \<open>Lines 78 to 88: the copy of the frame with both coordinate columns cleaned, the
  x column first.\<close>

definition clean :: "(string \<Rightarrow> pyfloat option) \<Rightarrow> string \<Rightarrow> string \<Rightarrow> dataframe \<Rightarrow> dataframe" where
  "clean F x_col y_col df =
     (let df1 = assign df x_col (map (Float \<circ> clean_coord F) (column df x_col))
      in assign df1 y_col (map (Float \<circ> clean_coord F) (column df1 y_col)))"

text \<open>Lines 92 to 101: the three masks, over the cleaned frame.\<close>

definition zero_mask :: "string \<Rightarrow> string \<Rightarrow> dataframe \<Rightarrow> bool list" where
  "zero_mask x_col y_col df_clean =
     mask_and (eq0 (float_column df_clean x_col)) (eq0 (float_column df_clean y_col))"

definition valid_range_mask :: "string \<Rightarrow> string \<Rightarrow> dataframe \<Rightarrow> bool list" where
  "valid_range_mask x_col y_col df_clean =
     mask_and (between (- 180) 180 (float_column df_clean x_col))
              (between (- 90) 90 (float_column df_clean y_col))"

definition valid_mask :: "string \<Rightarrow> string \<Rightarrow> dataframe \<Rightarrow> bool list" where
  "valid_mask x_col y_col df_clean =
     mask_and (mask_and (mask_and (valid_range_mask x_col y_col df_clean)
                                  (mask_not (zero_mask x_col y_col df_clean)))
                        (notna (float_column df_clean x_col)))
              (notna (float_column df_clean y_col))"

text \<open>Lines 104 to 106: the valid rows come from the cleaned frame, the zero and the
  invalid rows from the frame as read.\<close>

definition df_valid :: "(string \<Rightarrow> pyfloat option) \<Rightarrow> string \<Rightarrow> string \<Rightarrow> dataframe \<Rightarrow> dataframe" where
  "df_valid F x_col y_col df =
     (let df_clean = clean F x_col y_col df
      in select df_clean (valid_mask x_col y_col df_clean))"

definition df_zero :: "(string \<Rightarrow> pyfloat option) \<Rightarrow> string \<Rightarrow> string \<Rightarrow> dataframe \<Rightarrow> dataframe" where
  "df_zero F x_col y_col df =
     (let df_clean = clean F x_col y_col df
      in select df (zero_mask x_col y_col df_clean))"

definition df_invalid :: "(string \<Rightarrow> pyfloat option) \<Rightarrow> string \<Rightarrow> string \<Rightarrow> dataframe \<Rightarrow> dataframe" where
  "df_invalid F x_col y_col df =
     (let df_clean = clean F x_col y_col df
      in select df (mask_not (mask_or (valid_mask x_col y_col df_clean)
                                      (zero_mask x_col y_col df_clean))))"

section \<open>The boundary and the containment test (geopandas, shapely)\<close>

text \<open>
  \<open>gdf_polygon.unary_union\<close> is one polygonal geometry: the list of its parts, each an
  exterior ring with its holes, a ring being the closed list of its vertices (the last
  vertex repeats the first). The empty list is the empty geometry. The parts are those of
  a valid geometry, as the union returns it: they do not overlap. Of the frame read from
  the GeoJSON file the script uses this attribute only, so the frame is modelled by it.
\<close>

type_synonym coord = "rat \<times> rat"

type_synonym ring = "coord list"

record polygon =
  exterior :: ring
  interiors :: "ring list"

type_synonym geometry = "polygon list"

record geodataframe =
  unary_union :: geometry

definition edges :: "ring \<Rightarrow> (coord \<times> coord) list" where
  "edges r = zip r (tl r)"

text \<open>
  Where a point lies with respect to a ring, in exact arithmetic: on one of its edges (the
  point is collinear with the edge's ends and inside their bounding box), or else inside
  when the ray from the point towards greater x crosses the ring an odd number of times.
\<close>

datatype location = Interior | Boundary | Exterior

definition cross :: "coord \<Rightarrow> coord \<Rightarrow> coord \<Rightarrow> rat" where
  "cross a b p = (fst b - fst a) * (snd p - snd a) - (snd b - snd a) * (fst p - fst a)"

definition on_segment :: "coord \<Rightarrow> coord \<times> coord \<Rightarrow> bool" where
  "on_segment p e = (case e of (a, b) \<Rightarrow>
     cross a b p = 0 \<and>
     min (fst a) (fst b) \<le> fst p \<and> fst p \<le> max (fst a) (fst b) \<and>
     min (snd a) (snd b) \<le> snd p \<and> snd p \<le> max (snd a) (snd b))"

definition crosses_ray :: "coord \<Rightarrow> coord \<times> coord \<Rightarrow> bool" where
  "crosses_ray p e = (case e of (a, b) \<Rightarrow>
     (snd p < snd a) \<noteq> (snd p < snd b) \<and>
     fst p - fst a < (snd p - snd a) * (fst b - fst a) / (snd b - snd a))"

definition on_ring :: "coord \<Rightarrow> ring \<Rightarrow> bool" where
  "on_ring p r = list_ex (on_segment p) (edges r)"

definition inside_ring :: "coord \<Rightarrow> ring \<Rightarrow> bool" where
  "inside_ring p r = odd (length (filter (crosses_ray p) (edges r)))"

text \<open>
  The boundary of a polygonal geometry is the set of its rings. Its interior is what lies
  inside the exterior ring of a part and inside none of that part's holes, the boundary
  left out.
\<close>

definition rings :: "polygon \<Rightarrow> ring list" where
  "rings poly = exterior poly # interiors poly"

definition inside_polygon :: "coord \<Rightarrow> polygon \<Rightarrow> bool" where
  "inside_polygon p poly =
     (inside_ring p (exterior poly) \<and> \<not> list_ex (inside_ring p) (interiors poly))"

definition locate :: "coord \<Rightarrow> geometry \<Rightarrow> location" where
  "locate p g =
     (if list_ex (\<lambda>poly. list_ex (on_ring p) (rings poly)) g then Boundary
      else if list_ex (inside_polygon p) g then Interior
      else Exterior)"

text \<open>
  \<open>Point(xy).within(g)\<close>: shapely's \<open>within\<close> holds when the point is in the interior
  of \<open>g\<close>, and not when it is on the boundary or outside. The points of the script are
  built from valid rows, whose coordinates are finite (lemma \<open>valid_row_finite\<close> below).
\<close>

type_synonym point = "pyfloat \<times> pyfloat"

fun within_geom :: "point \<Rightarrow> geometry \<Rightarrow> bool" where
  "within_geom (Fin x, Fin y) g = (locate (x, y) g = Interior)"
| "within_geom p g = False"

section \<open>The analysis and the script (Home.py, lines 41 to 126)\<close>

datatype location_status = Inside | Outside

text \<open>A row of \<open>gdf_points\<close>: a valid row of the cleaned frame with its two added
  columns.\<close>

record gpoint =
  gp_index :: nat
  gp_row :: row
  gp_geometry :: point
  gp_location_status :: location_status

text \<open>The dictionary stored in \<open>st.session_state.results\<close>: either the key
  \<open>'error'\<close> alone, or the six keys of a finished analysis.\<close>

record result_bundle =
  res_gdf_points :: "gpoint list"
  res_df_invalid :: dataframe
  res_df_zero :: dataframe
  res_df_raw_len :: nat
  res_x_col :: string
  res_y_col :: string

datatype results = Error string | Analysis result_bundle

text \<open>Line 114: \<open>within(polygon_union).map({True: 'Inside', False: 'Outside'})\<close>.\<close>

definition status_of :: "bool \<Rightarrow> location_status" where
  "status_of b = (if b then Inside else Outside)"

text \<open>Lines 110 to 114: the geometry column and the status column of the valid rows.\<close>

definition gdf_points :: "geodataframe \<Rightarrow> string \<Rightarrow> string \<Rightarrow> dataframe \<Rightarrow> gpoint list" where
  "gdf_points gdf_polygon x_col y_col valid =
     (let geometry = zip (float_column valid x_col) (float_column valid y_col);
          polygon_union = unary_union gdf_polygon
      in map (\<lambda>((i, r), xy).
            \<lparr>gp_index = i, gp_row = r, gp_geometry = xy,
             gp_location_status = status_of (within_geom xy polygon_union)\<rparr>)
          (zip valid geometry))"

text \<open>Lines 75 to 126: what the button stores in the session state.\<close>

definition analysis ::
  "(string \<Rightarrow> pyfloat option) \<Rightarrow> geodataframe \<Rightarrow> dataframe \<Rightarrow> string \<Rightarrow> string \<Rightarrow> results" where
  "analysis F gdf_polygon df x_col y_col =
     (let valid = df_valid F x_col y_col df
      in if valid \<noteq> [] then
           Analysis \<lparr>res_gdf_points = gdf_points gdf_polygon x_col y_col valid,
                     res_df_invalid = df_invalid F x_col y_col df,
                     res_df_zero = df_zero F x_col y_col df,
                     res_df_raw_len = length df,
                     res_x_col = x_col, res_y_col = y_col\<rparr>
         else Error ''No valid data found (check if all your data is 0,0 or invalid).'')"

text \<open>
  One run of the script from line 41 on. An upload is \<open>None\<close> while no file is given;
  reading a file either raises (\<open>Inl\<close>, with the exception's text) or gives the frame.
  For the GeoJSON file the \<open>try\<close> block of lines 44 to 49 covers the reading and the
  change of the coordinate system. \<open>st.error\<close> followed by \<open>st.stop()\<close> ends the run with a
  message; otherwise the run ends with the session state it leaves.
\<close>

datatype run = Stopped string | Finished "results option"

definition script ::
  "(string \<Rightarrow> pyfloat option) \<Rightarrow> (string + geodataframe) option \<Rightarrow> (string + row list) option \<Rightarrow>
   string \<Rightarrow> string \<Rightarrow> bool \<Rightarrow> results option \<Rightarrow> run" where
  "script F geojson_file csv_file x_col y_col button session =
     (case (geojson_file, csv_file) of
        (Some geojson, Some csv) \<Rightarrow>
          (case geojson of
             Inl e \<Rightarrow> Stopped (''Error reading GeoJSON: '' @ e)
           | Inr gdf_polygon \<Rightarrow>
               (case csv of
                  Inl e \<Rightarrow> Stopped (''Error reading CSV: '' @ e)
                | Inr rows \<Rightarrow>
                    (if button
                     then Finished (Some (analysis F gdf_polygon (read_csv rows) x_col y_col))
                     else Finished session)))
      | _ \<Rightarrow> Finished session)"

section \<open>Notions used in the statements\<close>

text \<open>
  The pair of floats a row is cleaned to, the row of the cleaned frame, and the three
  tests that the masks of lines 92 to 101 apply to such a pair. The lemmas of the next
  sections show that the frames of the script are what these give row by row.
\<close>

definition coords :: "(string \<Rightarrow> pyfloat option) \<Rightarrow> string \<Rightarrow> string \<Rightarrow> row \<Rightarrow> point" where
  "coords F x_col y_col r = (clean_coord F (cell_of r x_col), clean_coord F (cell_of r y_col))"

definition clean_row :: "(string \<Rightarrow> pyfloat option) \<Rightarrow> string \<Rightarrow> string \<Rightarrow> row \<Rightarrow> row" where
  "clean_row F x_col y_col r =
     (let r1 = AList.update x_col (Float (clean_coord F (cell_of r x_col))) r
      in AList.update y_col (Float (clean_coord F (cell_of r1 y_col))) r1)"

definition is_zero :: "point \<Rightarrow> bool" where
  "is_zero p = (feq (fst p) (Fin 0) \<and> feq (snd p) (Fin 0))"

definition in_range :: "point \<Rightarrow> bool" where
  "in_range p = ((fle (Fin (- 180)) (fst p) \<and> fle (fst p) (Fin 180)) \<and>
                 (fle (Fin (- 90)) (snd p) \<and> fle (snd p) (Fin 90)))"

definition is_valid :: "point \<Rightarrow> bool" where
  "is_valid p = (((in_range p \<and> \<not> is_zero p) \<and> fst p \<noteq> NaN) \<and> snd p \<noteq> NaN)"

text \<open>
  A point lies on an edge when it is \<open>a + t (b - a)\<close> for the ends \<open>a\<close>, \<open>b\<close> of the edge
  and some \<open>t\<close> between 0 and 1; it lies on the boundary of a geometry when it lies on an
  edge of one of its rings.
\<close>

definition on_edge :: "coord \<Rightarrow> coord \<times> coord \<Rightarrow> bool" where
  "on_edge p e = (case e of (a, b) \<Rightarrow>
     \<exists>t. 0 \<le> t \<and> t \<le> 1 \<and>
         fst p = fst a + t * (fst b - fst a) \<and> snd p = snd a + t * (snd b - snd a))"

definition on_boundary :: "coord \<Rightarrow> geometry \<Rightarrow> bool" where
  "on_boundary p g = (\<exists>poly \<in> set g. \<exists>r \<in> set (rings poly). \<exists>e \<in> set (edges r). on_edge p e)"

text \<open>
  The end-to-end scenario of the specification: five rows of a file with the columns
  \<open>x\<close> and \<open>y\<close>, and the square with the corners (10, 20) and (11, 21) as the boundary.
\<close>

definition scenario_rows :: "row list" where
  "scenario_rows =
     [[(''x'', Text ''0''), (''y'', Text ''0'')],
      [(''x'', Text ''abc''), (''y'', Text ''abc'')],
      [(''x'', Text ''200''), (''y'', Text ''0'')],
      [(''x'', Text ''10''), (''y'', Text ''20'')],
      [(''x'', Text ''10.5''), (''y'', Text ''20.5'')]]"

definition square :: geodataframe where
  "square = \<lparr>unary_union =
     [\<lparr>exterior = [(10, 20), (11, 20), (11, 21), (10, 21), (10, 20)], interiors = []\<rparr>]\<rparr>"

text \<open>Three rows at and just past the ends of the valid range.\<close>

definition edge_rows :: "row list" where
  "edge_rows =
     [[(''x'', Text ''180''), (''y'', Text ''90'')],
      [(''x'', Text ''-180''), (''y'', Text ''-90'')],
      [(''x'', Text ''180.0001''), (''y'', Text ''0'')]]"

section \<open>The frames, row by row\<close>

lemma cell_of_update: "cell_of (AList.update k v r) k' = (if k' = k then v else cell_of r k')"
  by (simp add: cell_of_def update_conv')

lemma clean_coord_Float: "clean_coord F (Float v) = v"
  by (simp add: clean_coord_def isna_def)

lemma assign_map:
  "assign df c (map (\<lambda>(i, r). f r) df) = map (\<lambda>(i, r). (i, AList.update c (f r) r)) df"
  by (induction df) (auto simp: assign_def)

lemma column_map: "column df c = map (\<lambda>(i, r). cell_of r c) df"
  by (simp add: column_def)

lemma clean_rows: "clean F x_col y_col df = map (\<lambda>(i, r). (i, clean_row F x_col y_col r)) df"
proof -
  let ?f = "\<lambda>r. Float (clean_coord F (cell_of r x_col))"
  let ?df1 = "map (\<lambda>(i, r). (i, AList.update x_col (?f r) r)) df"
  have c1: "map (Float \<circ> clean_coord F) (column df x_col) = map (\<lambda>(i, r). ?f r) df"
    by (simp add: column_def case_prod_unfold)
  have a1: "assign df x_col (map (Float \<circ> clean_coord F) (column df x_col)) = ?df1"
    unfolding c1 by (rule assign_map)
  let ?g = "\<lambda>r. Float (clean_coord F (cell_of r y_col))"
  have c2: "map (Float \<circ> clean_coord F) (column ?df1 y_col) = map (\<lambda>(i, r). ?g r) ?df1"
    by (simp add: column_def case_prod_unfold)
  have a2: "assign ?df1 y_col (map (Float \<circ> clean_coord F) (column ?df1 y_col))
            = map (\<lambda>(i, r). (i, AList.update y_col (?g r) r)) ?df1"
    unfolding c2 by (rule assign_map)
  show ?thesis
    unfolding clean_def Let_def a1 a2
    by (simp add: clean_row_def Let_def case_prod_unfold)
qed

lemma cleaned_x: "as_float (cell_of (clean_row F x_col y_col r) x_col) = fst (coords F x_col y_col r)"
  by (simp add: clean_row_def Let_def cell_of_update coords_def clean_coord_Float)

lemma cleaned_y: "as_float (cell_of (clean_row F x_col y_col r) y_col) = snd (coords F x_col y_col r)"
  by (simp add: clean_row_def Let_def cell_of_update coords_def clean_coord_Float)

lemma cleaned_columns_float:
  "(\<exists>v. cell_of (clean_row F x_col y_col r) x_col = Float v) \<and>
   (\<exists>v. cell_of (clean_row F x_col y_col r) y_col = Float v)"
  by (simp add: clean_row_def Let_def cell_of_update)

lemma float_column_x:
  "float_column (clean F x_col y_col df) x_col = map (\<lambda>a. fst (coords F x_col y_col (snd a))) df"
  by (simp add: float_column_def column_def clean_rows case_prod_unfold cleaned_x)

lemma float_column_y:
  "float_column (clean F x_col y_col df) y_col = map (\<lambda>a. snd (coords F x_col y_col (snd a))) df"
  by (simp add: float_column_def column_def clean_rows case_prod_unfold cleaned_y)

lemma mask_and_maps: "mask_and (map f xs) (map g xs) = map (\<lambda>a. f a \<and> g a) xs"
  by (induction xs) (auto simp: mask_and_def)

lemma mask_or_maps: "mask_or (map f xs) (map g xs) = map (\<lambda>a. f a \<or> g a) xs"
  by (induction xs) (auto simp: mask_or_def)

lemma mask_not_map: "mask_not (map f xs) = map (\<lambda>a. \<not> f a) xs"
  by (simp add: mask_not_def)

lemma eq0_map: "eq0 (map f xs) = map (\<lambda>a. feq (f a) (Fin 0)) xs"
  by (simp add: eq0_def)

lemma between_map: "between lo hi (map f xs) = map (\<lambda>a. fle (Fin lo) (f a) \<and> fle (f a) (Fin hi)) xs"
  by (simp add: between_def)

lemma notna_map: "notna (map f xs) = map (\<lambda>a. f a \<noteq> NaN) xs"
  by (simp add: notna_def)

lemma zero_mask_rows:
  "zero_mask x_col y_col (clean F x_col y_col df) = map (\<lambda>a. is_zero (coords F x_col y_col (snd a))) df"
  unfolding zero_mask_def float_column_x float_column_y eq0_map mask_and_maps is_zero_def ..

lemma valid_range_mask_rows:
  "valid_range_mask x_col y_col (clean F x_col y_col df) = map (\<lambda>a. in_range (coords F x_col y_col (snd a))) df"
  unfolding valid_range_mask_def float_column_x float_column_y between_map mask_and_maps in_range_def ..

lemma valid_mask_rows:
  "valid_mask x_col y_col (clean F x_col y_col df) = map (\<lambda>a. is_valid (coords F x_col y_col (snd a))) df"
  unfolding valid_mask_def valid_range_mask_rows zero_mask_rows float_column_x float_column_y
    notna_map mask_not_map mask_and_maps is_valid_def ..

lemma select_map: "select (map g df) (map P df) = map g (filter P df)"
  by (induction df) (auto simp: select_def)

lemma select_filter: "select df (map P df) = filter P df"
  using select_map [of "\<lambda>a. a" df P] by simp

lemma df_zero_filter:
  "df_zero F x_col y_col df = filter (\<lambda>a. is_zero (coords F x_col y_col (snd a))) df"
  by (simp add: df_zero_def Let_def zero_mask_rows select_filter)

lemma df_valid_filter:
  "df_valid F x_col y_col df =
     map (\<lambda>(i, r). (i, clean_row F x_col y_col r)) (filter (\<lambda>a. is_valid (coords F x_col y_col (snd a))) df)"
proof -
  have "df_valid F x_col y_col df =
          select (clean F x_col y_col df) (map (\<lambda>a. is_valid (coords F x_col y_col (snd a))) df)"
    by (simp add: df_valid_def Let_def valid_mask_rows)
  then show ?thesis
    by (simp add: clean_rows select_map)
qed

lemma df_invalid_filter:
  "df_invalid F x_col y_col df =
     filter (\<lambda>a. \<not> (is_valid (coords F x_col y_col (snd a)) \<or> is_zero (coords F x_col y_col (snd a)))) df"
  unfolding df_invalid_def Let_def valid_mask_rows zero_mask_rows mask_or_maps mask_not_map
    select_filter ..

lemma index_read_csv: "index (read_csv rows) = [0..<length rows]"
  by (simp add: index_def read_csv_def)

lemma set_read_csv: "set (read_csv rows) = {(i, r). i < length rows \<and> r = rows ! i}"
  by (auto simp: read_csv_def in_set_enumerate_eq)

lemma mem_index_filter:
  "i \<in> set (index (filter (\<lambda>a. Q (snd a)) (read_csv rows))) \<longleftrightarrow> i < length rows \<and> Q (rows ! i)"
  by (auto simp: index_def set_read_csv image_iff)

lemma index_df_valid:
  "index (df_valid F x_col y_col df) = index (filter (\<lambda>a. is_valid (coords F x_col y_col (snd a))) df)"
  by (simp add: df_valid_filter index_def case_prod_unfold comp_def)

lemma valid_index_iff:
  "i \<in> set (index (df_valid F x_col y_col (read_csv rows))) \<longleftrightarrow>
     i < length rows \<and> is_valid (coords F x_col y_col (rows ! i))"
  using mem_index_filter [of i "\<lambda>r. is_valid (coords F x_col y_col r)" rows]
  by (simp add: index_df_valid)

lemma zero_index_iff:
  "i \<in> set (index (df_zero F x_col y_col (read_csv rows))) \<longleftrightarrow>
     i < length rows \<and> is_zero (coords F x_col y_col (rows ! i))"
  using mem_index_filter [of i "\<lambda>r. is_zero (coords F x_col y_col r)" rows]
  by (simp add: df_zero_filter)

lemma invalid_index_iff:
  "i \<in> set (index (df_invalid F x_col y_col (read_csv rows))) \<longleftrightarrow>
     i < length rows \<and> \<not> (is_valid (coords F x_col y_col (rows ! i)) \<or> is_zero (coords F x_col y_col (rows ! i)))"
  using mem_index_filter
    [of i "\<lambda>r. \<not> (is_valid (coords F x_col y_col r) \<or> is_zero (coords F x_col y_col r))" rows]
  by (simp add: df_invalid_filter)

lemma zero_mem_iff:
  "(i, r) \<in> set (df_zero F x_col y_col (read_csv rows)) \<longleftrightarrow>
     i < length rows \<and> r = rows ! i \<and> is_zero (coords F x_col y_col r)"
  by (auto simp: df_zero_filter set_read_csv)

lemma invalid_mem_iff:
  "(i, r) \<in> set (df_invalid F x_col y_col (read_csv rows)) \<longleftrightarrow>
     i < length rows \<and> r = rows ! i \<and> \<not> (is_valid (coords F x_col y_col r) \<or> is_zero (coords F x_col y_col r))"
  by (auto simp: df_invalid_filter set_read_csv)

lemma distinct_index_filter: "distinct (index (filter P (read_csv rows)))"
  by (simp add: index_def distinct_map_filter read_csv_def)

lemma valid_not_zero: "is_valid p \<Longrightarrow> \<not> is_zero p"
  by (simp add: is_valid_def)

lemma partition_lengths:
  "length (filter (\<lambda>a. V a) df) + length (filter (\<lambda>a. Z a) df)
     + length (filter (\<lambda>a. \<not> (V a \<or> Z a)) df) = length df" if "\<And>a. V a \<Longrightarrow> \<not> Z a"
  using that by (induction df) auto

lemma lengths_sum:
  "length (df_valid F x_col y_col df) + length (df_zero F x_col y_col df)
     + length (df_invalid F x_col y_col df) = length df"
  unfolding df_valid_filter df_zero_filter df_invalid_filter length_map
  by (rule partition_lengths) (simp add: valid_not_zero)

lemma map_fst_zip_same:
  "length ys = length xs \<Longrightarrow> map (\<lambda>a. f (fst a)) (zip xs ys) = map f xs"
  by (induction xs ys rule: list_induct2') auto

lemma gdf_points_index: "map gp_index (gdf_points g x_col y_col valid) = index valid"
  by (simp add: gdf_points_def Let_def index_def float_column_def column_def comp_def
      case_prod_unfold map_fst_zip_same)

lemma gdf_points_row: "map gp_row (gdf_points g x_col y_col valid) = map snd valid"
  by (simp add: gdf_points_def Let_def float_column_def column_def comp_def
      case_prod_unfold map_fst_zip_same)

section \<open>The scenario, evaluated\<close>

lemma cc_0: "clean_coord py_float (Text ''0'') = Fin 0"
  by code_simp

lemma cc_abc: "clean_coord py_float (Text ''abc'') = NaN"
  by code_simp

lemma cc_200: "clean_coord py_float (Text ''200'') = Fin 200"
  by code_simp

lemma cc_10: "clean_coord py_float (Text ''10'') = Fin 10"
  by code_simp

lemma cc_20: "clean_coord py_float (Text ''20'') = Fin 20"
  by code_simp

lemma cc_10_5: "clean_coord py_float (Text ''10.5'') = Fin (21 / 2)"
  by code_simp

lemma cc_20_5: "clean_coord py_float (Text ''20.5'') = Fin (41 / 2)"
  by code_simp

lemmas cc = cc_0 cc_abc cc_200 cc_10 cc_20 cc_10_5 cc_20_5

lemma scenario_frame:
  "read_csv scenario_rows =
     [(0, [(''x'', Text ''0''), (''y'', Text ''0'')]),
      (1, [(''x'', Text ''abc''), (''y'', Text ''abc'')]),
      (2, [(''x'', Text ''200''), (''y'', Text ''0'')]),
      (3, [(''x'', Text ''10''), (''y'', Text ''20'')]),
      (4, [(''x'', Text ''10.5''), (''y'', Text ''20.5'')])]"
  by (simp add: read_csv_def scenario_rows_def enumerate_Suc_eq)

lemma scenario_zero:
  "df_zero py_float ''x'' ''y'' (read_csv scenario_rows) = [(0, [(''x'', Text ''0''), (''y'', Text ''0'')])]"
  by (simp add: scenario_frame df_zero_filter coords_def cell_of_def cc is_zero_def)

lemma scenario_invalid:
  "df_invalid py_float ''x'' ''y'' (read_csv scenario_rows) =
     [(1, [(''x'', Text ''abc''), (''y'', Text ''abc'')]),
      (2, [(''x'', Text ''200''), (''y'', Text ''0'')])]"
  by (simp add: scenario_frame df_invalid_filter coords_def cell_of_def cc is_zero_def is_valid_def in_range_def)

lemma scenario_valid:
  "df_valid py_float ''x'' ''y'' (read_csv scenario_rows) =
     [(3, [(''x'', Float (Fin 10)), (''y'', Float (Fin 20))]),
      (4, [(''x'', Float (Fin (21 / 2))), (''y'', Float (Fin (41 / 2)))])]"
  by (simp add: scenario_frame df_valid_filter coords_def cell_of_def cc is_zero_def is_valid_def in_range_def
      clean_row_def Let_def)

lemma loc3: "locate (10, 20) (unary_union square) = Boundary"
  by (simp add: square_def locate_def rings_def on_ring_def edges_def on_segment_def cross_def)

lemma loc4: "locate (21 / 2, 41 / 2) (unary_union square) = Interior"
  by (simp add: square_def locate_def rings_def on_ring_def edges_def on_segment_def cross_def
      inside_polygon_def inside_ring_def crosses_ray_def)

lemma scenario_points:
  "gdf_points square ''x'' ''y'' (df_valid py_float ''x'' ''y'' (read_csv scenario_rows)) =
     [\<lparr>gp_index = 3, gp_row = [(''x'', Float (Fin 10)), (''y'', Float (Fin 20))],
       gp_geometry = (Fin 10, Fin 20), gp_location_status = Outside\<rparr>,
      \<lparr>gp_index = 4, gp_row = [(''x'', Float (Fin (21 / 2))), (''y'', Float (Fin (41 / 2)))],
       gp_geometry = (Fin (21 / 2), Fin (41 / 2)), gp_location_status = Inside\<rparr>]"
  by (simp add: scenario_valid gdf_points_def Let_def float_column_def column_def cell_of_def
      loc3 loc4 status_of_def)

section \<open>Points on an edge\<close>

lemma convex_between:
  fixes u v t :: rat
  assumes "0 \<le> t" and "t \<le> 1"
  shows "min u v \<le> u + t * (v - u) \<and> u + t * (v - u) \<le> max u v"
proof (cases "u \<le> v")
  case True
  have "0 \<le> t * (v - u)" using True assms by simp
  moreover have "t * (v - u) \<le> v - u"
    using True assms mult_right_mono [of t 1 "v - u"] by simp
  ultimately have "u \<le> u + t * (v - u) \<and> u + t * (v - u) \<le> v" by linarith
  with True show ?thesis by (simp add: min_def max_def)
next
  case False
  have "t * (v - u) \<le> 0" using False assms by (simp add: mult_le_0_iff)
  moreover have "v - u \<le> t * (v - u)"
    using False assms mult_right_mono_neg [of t 1 "v - u"] by simp
  ultimately have "v \<le> u + t * (v - u) \<and> u + t * (v - u) \<le> u" by linarith
  with False show ?thesis by (simp add: min_def max_def)
qed

lemma on_edge_on_segment: "on_edge p e \<Longrightarrow> on_segment p e"
proof -
  assume h: "on_edge p e"
  obtain a b where e: "e = (a, b)" by (cases e)
  from h e obtain t where t: "0 \<le> t" "t \<le> 1"
    and px: "fst p = fst a + t * (fst b - fst a)" and py: "snd p = snd a + t * (snd b - snd a)"
    by (auto simp: on_edge_def)
  have "cross a b p = 0"
    by (simp add: cross_def px py algebra_simps)
  moreover have "min (fst a) (fst b) \<le> fst p \<and> fst p \<le> max (fst a) (fst b)"
    unfolding px by (rule convex_between [OF t])
  moreover have "min (snd a) (snd b) \<le> snd p \<and> snd p \<le> max (snd a) (snd b)"
    unfolding py by (rule convex_between [OF t])
  ultimately show ?thesis by (simp add: on_segment_def e)
qed

lemma on_segment_on_edge: "on_segment p e \<Longrightarrow> on_edge p e"
proof -
  assume h: "on_segment p e"
  obtain a b where e: "e = (a, b)" by (cases e)
  obtain ax ay where a: "a = (ax, ay)" by (cases a)
  obtain bx "by" where b: "b = (bx, by)" by (cases b)
  obtain px py where p: "p = (px, py)" by (cases p)
  from h have c: "(bx - ax) * (py - ay) = (by - ay) * (px - ax)"
    and bx: "min ax bx \<le> px" "px \<le> max ax bx"
    and "by": "min ay by \<le> py" "py \<le> max ay by"
    by (simp_all add: on_segment_def e a b p cross_def)
  show ?thesis
  proof (cases "ax = bx")
    case xeq: True
    show ?thesis
    proof (cases "ay = by")
      case True
      with xeq bx "by" have "px = ax" "py = ay" by simp_all
      then show ?thesis
        by (auto simp: on_edge_def e a b p intro!: exI [of _ 0])
    next
      case False
      define t where "t = (py - ay) / (by - ay)"
      from xeq bx have pxa: "px = ax" by simp
      have t01: "0 \<le> t \<and> t \<le> 1"
        using False "by" unfolding t_def
        by (cases "ay < by") (auto simp: field_simps min_def max_def split: if_splits)
      have "py = ay + t * (by - ay)" using False by (simp add: t_def)
      with t01 pxa xeq show ?thesis
        by (auto simp: on_edge_def e a b p intro!: exI [of _ t])
    qed
  next
    case False
    define t where "t = (px - ax) / (bx - ax)"
    have t01: "0 \<le> t \<and> t \<le> 1"
      using False bx unfolding t_def
      by (cases "ax < bx") (auto simp: field_simps min_def max_def split: if_splits)
    have x: "px = ax + t * (bx - ax)" using False by (simp add: t_def)
    have "py - ay = (by - ay) * (px - ax) / (bx - ax)"
      using c False by (simp add: field_simps)
    then have y: "py = ay + t * (by - ay)" by (simp add: t_def field_simps)
    from t01 x y show ?thesis
      by (auto simp: on_edge_def e a b p intro!: exI [of _ t])
  qed
qed

lemma on_boundary_iff: "on_boundary p g \<longleftrightarrow> locate p g = Boundary"
proof -
  have "on_edge p e \<longleftrightarrow> on_segment p e" for e
    using on_edge_on_segment on_segment_on_edge by blast
  then show ?thesis
    by (auto simp: on_boundary_def locate_def on_ring_def list_ex_iff)
qed

section \<open>More values of \<open>clean_coord\<close>\<close>

lemma cc_180: "clean_coord py_float (Text ''180'') = Fin 180"
  by code_simp

lemma cc_90: "clean_coord py_float (Text ''90'') = Fin 90"
  by code_simp

lemma cc_m180: "clean_coord py_float (Text ''-180'') = Fin (- 180)"
  by code_simp

lemma cc_m90: "clean_coord py_float (Text ''-90'') = Fin (- 90)"
  by code_simp

lemma cc_180_0001: "clean_coord py_float (Text ''180.0001'') = Fin (6333190494426969 / 35184372088832)"
  by code_simp

lemma cc_45_123: "clean_coord py_float (Text ''45,123'') = Fin (6350497687057465 / 140737488355328)"
  by code_simp

lemma cc_empty: "clean_coord py_float (Text []) = NaN"
  by code_simp

lemma cc_spaces: "clean_coord py_float (Text '' 45,123  '') = Fin (6350497687057465 / 140737488355328)"
  by code_simp

lemma valid_row_finite: "is_valid p \<Longrightarrow> \<exists>a b. p = (Fin a, Fin b)"
  by (cases p; cases "fst p"; cases "snd p") (auto simp: is_valid_def in_range_def)

section \<open>Trimming and the decimal comma\<close>

lemma strip_rest:
  "dropWhile isspace s = strip s @ rev (takeWhile isspace (rev (dropWhile isspace s)))"
  unfolding strip_def rev_append [symmetric] takeWhile_dropWhile_id rev_rev_ident ..

lemma strip_decompose:
  "\<exists>a b. s = a @ strip s @ b \<and> list_all isspace a \<and> list_all isspace b"
proof -
  let ?d = "dropWhile isspace s"
  let ?a = "takeWhile isspace s"
  let ?b = "rev (takeWhile isspace (rev ?d))"
  have d: "?d = strip s @ ?b" by (rule strip_rest)
  have "s = ?a @ ?d" by simp
  with d have "s = ?a @ strip s @ ?b" by metis
  moreover have "list_all isspace ?a" by (auto simp: list_all_iff dest: set_takeWhileD)
  moreover have "list_all isspace ?b" by (auto simp: list_all_iff dest: set_takeWhileD)
  ultimately show ?thesis by blast
qed

lemma strip_ends:
  "strip s = [] \<or> (\<not> isspace (hd (strip s)) \<and> \<not> isspace (last (strip s)))"
proof (cases "strip s = []")
  case True
  then show ?thesis by simp
next
  case False
  let ?d = "dropWhile isspace s"
  let ?e = "dropWhile isspace (rev ?d)"
  have e: "?e \<noteq> []" using False by (simp add: strip_def)
  have l: "\<not> isspace (last (strip s))"
    using e hd_dropWhile [of isspace "rev ?d"] by (simp add: strip_def last_rev)
  have d: "?d = strip s @ rev (takeWhile isspace (rev ?d))" by (rule strip_rest)
  then have "hd ?d = hd (strip s)" using False by (metis hd_append2)
  moreover have "?d \<noteq> []" using d False by (metis append_is_Nil_conv)
  ultimately have "\<not> isspace (hd (strip s))" using hd_dropWhile [of isspace s] by simp
  with l show ?thesis by simp
qed

lemma replace_comma_pointwise:
  "list_all2 (\<lambda>c d. d = (if c = CHR '','' then CHR ''.'' else c)) t (replace_comma t)"
  by (simp add: replace_comma_def list_all2_map2 list_all2_same)

lemma no_comma_left: "CHR '','' \<notin> set (replace_comma t)"
  by (auto simp: replace_comma_def)

lemma nearest_45_123: "round_double (45123 / 1000) = Fin (6350497687057465 / 140737488355328)"
  by code_simp

lemma py_float_45_123:
  "py_float (replace_comma (strip '' 45,123  '')) = Some (Fin (6350497687057465 / 140737488355328))"
  by code_simp

lemma py_float_abc: "py_float (replace_comma (strip ''abc'')) = None"
  by code_simp

section \<open>The claims\<close>

text \<open>
  C1. The labels of the valid, the zero and the invalid frame partition the labels of
  the frame as read: together they are all of them, no label is in two frames or twice
  in one, and the three lengths add up to the number of rows read. \<open>gdf_points\<close> has
  one row for each valid label, in the same order, with a status that is \<open>Inside\<close> or
  \<open>Outside\<close>; no label of the zero or the invalid frame has a row there.
\<close>

theorem partition_total_exclusive:
  "let df = read_csv rows;
       V = index (df_valid F x_col y_col df);
       Z = index (df_zero F x_col y_col df);
       I = index (df_invalid F x_col y_col df);
       points = gdf_points gdf_polygon x_col y_col (df_valid F x_col y_col df)
   in set V \<union> set Z \<union> set I = set (index df) \<and>
      set V \<inter> set Z = {} \<and> set V \<inter> set I = {} \<and> set Z \<inter> set I = {} \<and>
      distinct (index df) \<and> distinct V \<and> distinct Z \<and> distinct I \<and>
      length V + length Z + length I = length rows \<and>
      map gp_index points = V \<and>
      set (map gp_index points) \<inter> (set Z \<union> set I) = {} \<and>
      set (map gp_location_status points) \<subseteq> {Inside, Outside}"
proof -
  let ?df = "read_csv rows"
  let ?V = "index (df_valid F x_col y_col ?df)"
  let ?Z = "index (df_zero F x_col y_col ?df)"
  let ?I = "index (df_invalid F x_col y_col ?df)"
  let ?points = "gdf_points gdf_polygon x_col y_col (df_valid F x_col y_col ?df)"
  have u: "set ?V \<union> set ?Z \<union> set ?I = set (index ?df)"
    by (auto simp: valid_index_iff zero_index_iff invalid_index_iff index_read_csv)
  have vz: "set ?V \<inter> set ?Z = {}"
    by (auto simp: valid_index_iff zero_index_iff dest: valid_not_zero)
  have vi: "set ?V \<inter> set ?I = {}"
    by (auto simp: valid_index_iff invalid_index_iff)
  have zi: "set ?Z \<inter> set ?I = {}"
    by (auto simp: zero_index_iff invalid_index_iff)
  have d: "distinct (index ?df)" "distinct ?V" "distinct ?Z" "distinct ?I"
    by (simp_all add: index_read_csv index_df_valid df_zero_filter df_invalid_filter distinct_index_filter)
  have l: "length ?V + length ?Z + length ?I = length rows"
    using lengths_sum [of F x_col y_col ?df] by (simp add: index_def read_csv_def)
  have p: "map gp_index ?points = ?V"
    by (rule gdf_points_index)
  have n: "set (map gp_index ?points) \<inter> (set ?Z \<union> set ?I) = {}"
    unfolding p using vz vi by blast
  have s: "set (map gp_location_status ?points) \<subseteq> {Inside, Outside}"
  proof
    fix x assume "x \<in> set (map gp_location_status ?points)"
    show "x \<in> {Inside, Outside}" by (cases x) simp_all
  qed
  show ?thesis
    unfolding Let_def using u vz vi zi d l p n s by (intro conjI)
qed

theorem partition_total_exclusive_witness:
  "index (df_valid py_float ''x'' ''y'' (read_csv scenario_rows)) = [3, 4] \<and>
   index (df_zero py_float ''x'' ''y'' (read_csv scenario_rows)) = [0] \<and>
   index (df_invalid py_float ''x'' ''y'' (read_csv scenario_rows)) = [1, 2] \<and>
   map gp_location_status
     (gdf_points square ''x'' ''y'' (df_valid py_float ''x'' ''y'' (read_csv scenario_rows)))
     = [Outside, Inside] \<and>
   map gp_index
     (gdf_points square ''x'' ''y'' (df_valid py_float ''x'' ''y'' (read_csv scenario_rows)))
     = index (df_valid py_float ''x'' ''y'' (read_csv scenario_rows)) \<and>
   length (index (df_valid py_float ''x'' ''y'' (read_csv scenario_rows)))
     + length (index (df_zero py_float ''x'' ''y'' (read_csv scenario_rows)))
     + length (index (df_invalid py_float ''x'' ''y'' (read_csv scenario_rows)))
     = length scenario_rows"
proof -
  have v: "index (df_valid py_float ''x'' ''y'' (read_csv scenario_rows)) = [3, 4]"
    by (simp add: scenario_valid index_def)
  have z: "index (df_zero py_float ''x'' ''y'' (read_csv scenario_rows)) = [0]"
    by (simp add: scenario_zero index_def)
  have i: "index (df_invalid py_float ''x'' ''y'' (read_csv scenario_rows)) = [1, 2]"
    by (simp add: scenario_invalid index_def)
  have s: "map gp_location_status
     (gdf_points square ''x'' ''y'' (df_valid py_float ''x'' ''y'' (read_csv scenario_rows)))
     = [Outside, Inside]"
    by (simp add: scenario_points)
  from partition_total_exclusive [of scenario_rows py_float "''x''" "''y''" square]
  have "map gp_index
     (gdf_points square ''x'' ''y'' (df_valid py_float ''x'' ''y'' (read_csv scenario_rows)))
     = index (df_valid py_float ''x'' ''y'' (read_csv scenario_rows)) \<and>
   length (index (df_valid py_float ''x'' ''y'' (read_csv scenario_rows)))
     + length (index (df_zero py_float ''x'' ''y'' (read_csv scenario_rows)))
     + length (index (df_invalid py_float ''x'' ''y'' (read_csv scenario_rows)))
     = length scenario_rows"
    unfolding Let_def by blast
  with v z i s show ?thesis by blast
qed

text \<open>
  C6. \<open>clean_coord\<close> is a total function: on the missing cell it gives NaN; on a
  text it gives what \<open>float\<close> makes of the text with the whitespace at both ends
  removed and every comma replaced by a full stop, and NaN where \<open>float\<close> raises. The
  trimmed text is the text less a run of whitespace at each end, and it neither starts
  nor ends with whitespace. The empty text gives NaN, and \<open>45,123\<close> gives the double
  nearest to 45.123.
\<close>

theorem clean_coord_parse:
  "clean_coord F (Float NaN) = NaN \<and>
   (F (replace_comma (strip s)) = None \<longrightarrow> clean_coord F (Text s) = NaN) \<and>
   (\<forall>v. F (replace_comma (strip s)) = Some v \<longrightarrow> clean_coord F (Text s) = v) \<and>
   (\<exists>a b. s = a @ strip s @ b \<and> list_all isspace a \<and> list_all isspace b) \<and>
   (strip s = [] \<or> (\<not> isspace (hd (strip s)) \<and> \<not> isspace (last (strip s)))) \<and>
   list_all2 (\<lambda>c d. d = (if c = CHR '','' then CHR ''.'' else c)) t (replace_comma t) \<and>
   CHR '','' \<notin> set (replace_comma t) \<and>
   clean_coord py_float (Text []) = NaN \<and>
   clean_coord py_float (Text ''45,123'') = round_double (45123 / 1000) \<and>
   round_double (45123 / 1000) = Fin (6350497687057465 / 140737488355328)"
proof -
  have c: "clean_coord F (Float NaN) = NaN"
    "F (replace_comma (strip s)) = None \<longrightarrow> clean_coord F (Text s) = NaN"
    "\<forall>v. F (replace_comma (strip s)) = Some v \<longrightarrow> clean_coord F (Text s) = v"
    by (simp_all add: clean_coord_def isna_def)
  show ?thesis
    using c strip_decompose [of s] strip_ends [of s] replace_comma_pointwise [of t]
      no_comma_left [of t] cc_empty cc_45_123 nearest_45_123
    by (intro conjI) simp_all
qed

theorem clean_coord_parse_witness:
  "py_float (replace_comma (strip '' 45,123  '')) = Some (Fin (6350497687057465 / 140737488355328)) \<and>
   clean_coord py_float (Text '' 45,123  '') = Fin (6350497687057465 / 140737488355328) \<and>
   py_float (replace_comma (strip ''abc'')) = None \<and>
   clean_coord py_float (Text ''abc'') = NaN"
proof -
  have a: "clean_coord py_float (Text '' 45,123  '') = Fin (6350497687057465 / 140737488355328)"
    using clean_coord_parse [of py_float "'' 45,123  ''"] py_float_45_123 by blast
  have b: "clean_coord py_float (Text ''abc'') = NaN"
    using clean_coord_parse [of py_float "''abc''"] py_float_abc by blast
  show ?thesis
    using a b py_float_45_123 py_float_abc by blast
qed

text \<open>
  C3. A row whose two coordinate fields both clean to exactly 0.0 is in the zero frame,
  and in neither the valid nor the invalid frame, although the range mask of line 96
  holds at it: the zero rule comes before the range rule.
\<close>

theorem zero_takes_precedence:
  assumes "i < length rows"
    and "clean_coord F (cell_of (rows ! i) x_col) = Fin 0"
    and "clean_coord F (cell_of (rows ! i) y_col) = Fin 0"
  shows "(i, rows ! i) \<in> set (df_zero F x_col y_col (read_csv rows)) \<and>
         i \<notin> set (index (df_valid F x_col y_col (read_csv rows))) \<and>
         i \<notin> set (index (df_invalid F x_col y_col (read_csv rows))) \<and>
         valid_range_mask x_col y_col (clean F x_col y_col (read_csv rows)) ! i"
proof -
  have z: "is_zero (coords F x_col y_col (rows ! i))"
    using assms by (simp add: coords_def is_zero_def)
  have r: "in_range (coords F x_col y_col (rows ! i))"
    using assms by (simp add: coords_def in_range_def)
  have m: "valid_range_mask x_col y_col (clean F x_col y_col (read_csv rows)) ! i"
    using assms(1) r by (simp add: valid_range_mask_rows read_csv_def nth_enumerate_eq)
  show ?thesis
    using assms(1) z m by (simp add: zero_mem_iff valid_index_iff invalid_index_iff valid_not_zero is_valid_def)
qed

theorem zero_takes_precedence_witness:
  "(0, scenario_rows ! 0) \<in> set (df_zero py_float ''x'' ''y'' (read_csv scenario_rows)) \<and>
   0 \<notin> set (index (df_valid py_float ''x'' ''y'' (read_csv scenario_rows))) \<and>
   0 \<notin> set (index (df_invalid py_float ''x'' ''y'' (read_csv scenario_rows))) \<and>
   valid_range_mask ''x'' ''y'' (clean py_float ''x'' ''y'' (read_csv scenario_rows)) ! 0"
proof -
  have h: "0 < length scenario_rows"
    "clean_coord py_float (cell_of (scenario_rows ! 0) ''x'') = Fin 0"
    "clean_coord py_float (cell_of (scenario_rows ! 0) ''y'') = Fin 0"
    by (simp_all add: scenario_rows_def cell_of_def cc_0)
  show ?thesis
    using zero_takes_precedence [OF h] .
qed

text \<open>
  C4. A row that cleans to a pair of finite numbers \<open>(a, b)\<close> other than (0, 0) is valid
  exactly when \<open>-180 \<le> a \<le> 180\<close> and \<open>-90 \<le> b \<le> 90\<close>, the ends included, and
  invalid otherwise; it is never in the zero frame. The witness has the rows (180, 90)
  and (-180, -90), which are valid, and (180.0001, 0), which is invalid.
\<close>

theorem range_inclusive:
  assumes "i < length rows"
    and "clean_coord F (cell_of (rows ! i) x_col) = Fin a"
    and "clean_coord F (cell_of (rows ! i) y_col) = Fin b"
    and "\<not> (a = 0 \<and> b = 0)"
  shows "(i \<in> set (index (df_valid F x_col y_col (read_csv rows))) \<longleftrightarrow>
            - 180 \<le> a \<and> a \<le> 180 \<and> - 90 \<le> b \<and> b \<le> 90) \<and>
         (i \<in> set (index (df_invalid F x_col y_col (read_csv rows))) \<longleftrightarrow>
            \<not> (- 180 \<le> a \<and> a \<le> 180 \<and> - 90 \<le> b \<and> b \<le> 90)) \<and>
         i \<notin> set (index (df_zero F x_col y_col (read_csv rows)))"
proof -
  have c: "coords F x_col y_col (rows ! i) = (Fin a, Fin b)"
    using assms by (simp add: coords_def)
  have z: "\<not> is_zero (Fin a, Fin b)"
    using assms(4) by (auto simp: is_zero_def)
  have v: "is_valid (Fin a, Fin b) \<longleftrightarrow> - 180 \<le> a \<and> a \<le> 180 \<and> - 90 \<le> b \<and> b \<le> 90"
    using z by (auto simp: is_valid_def in_range_def)
  show ?thesis
    using assms(1) z v by (simp add: valid_index_iff invalid_index_iff zero_index_iff c)
qed

theorem range_inclusive_witness:
  "0 \<in> set (index (df_valid py_float ''x'' ''y'' (read_csv edge_rows))) \<and>
   1 \<in> set (index (df_valid py_float ''x'' ''y'' (read_csv edge_rows))) \<and>
   2 \<in> set (index (df_invalid py_float ''x'' ''y'' (read_csv edge_rows))) \<and>
   2 \<notin> set (index (df_valid py_float ''x'' ''y'' (read_csv edge_rows)))"
proof -
  have l: "0 < length edge_rows" "1 < length edge_rows" "2 < length edge_rows"
    by (simp_all add: edge_rows_def)
  have r0: "clean_coord py_float (cell_of (edge_rows ! 0) ''x'') = Fin 180"
    "clean_coord py_float (cell_of (edge_rows ! 0) ''y'') = Fin 90"
    by (simp_all add: edge_rows_def cell_of_def cc_180 cc_90)
  have r1: "clean_coord py_float (cell_of (edge_rows ! 1) ''x'') = Fin (- 180)"
    "clean_coord py_float (cell_of (edge_rows ! 1) ''y'') = Fin (- 90)"
    by (simp_all add: edge_rows_def cell_of_def cc_m180 cc_m90)
  have r2: "clean_coord py_float (cell_of (edge_rows ! 2) ''x'') = Fin (6333190494426969 / 35184372088832)"
    "clean_coord py_float (cell_of (edge_rows ! 2) ''y'') = Fin 0"
    by (simp_all add: edge_rows_def cell_of_def cc_180_0001 cc_0)
  show ?thesis
    using range_inclusive [OF l(1) r0] range_inclusive [OF l(2) r1] range_inclusive [OF l(3) r2]
    by simp
qed

text \<open>
  C5. A row with NaN on either axis, as a failed \<open>float\<close> leaves it, is in the invalid
  frame, and in neither the valid nor the zero frame.
\<close>

theorem nan_is_invalid:
  assumes "i < length rows"
    and "clean_coord F (cell_of (rows ! i) x_col) = NaN \<or> clean_coord F (cell_of (rows ! i) y_col) = NaN"
  shows "(i, rows ! i) \<in> set (df_invalid F x_col y_col (read_csv rows)) \<and>
         i \<notin> set (index (df_valid F x_col y_col (read_csv rows))) \<and>
         i \<notin> set (index (df_zero F x_col y_col (read_csv rows)))"
proof -
  have "\<not> is_valid (coords F x_col y_col (rows ! i))" "\<not> is_zero (coords F x_col y_col (rows ! i))"
    using assms(2) by (auto simp: coords_def is_valid_def is_zero_def)
  then show ?thesis
    using assms(1) by (simp add: invalid_mem_iff valid_index_iff zero_index_iff)
qed

theorem nan_is_invalid_witness:
  "(1, scenario_rows ! 1) \<in> set (df_invalid py_float ''x'' ''y'' (read_csv scenario_rows)) \<and>
   1 \<notin> set (index (df_valid py_float ''x'' ''y'' (read_csv scenario_rows))) \<and>
   1 \<notin> set (index (df_zero py_float ''x'' ''y'' (read_csv scenario_rows)))"
proof -
  have h: "1 < length scenario_rows"
    "clean_coord py_float (cell_of (scenario_rows ! 1) ''x'') = NaN \<or>
     clean_coord py_float (cell_of (scenario_rows ! 1) ''y'') = NaN"
    by (simp_all add: scenario_rows_def cell_of_def cc_abc)
  show ?thesis
    using nan_is_invalid [OF h] .
qed

text \<open>
  C9. Each frame keeps the order of the rows it was taken from: the zero and the invalid
  frame are subsequences of the frame as read, the valid frame is a subsequence of the
  cleaned frame, its labels a subsequence of the labels as read, and \<open>gdf_points\<close> has
  the valid rows one by one in the same order.
\<close>

theorem order_preserved:
  "subseq (df_zero F x_col y_col df) df \<and>
   subseq (df_invalid F x_col y_col df) df \<and>
   subseq (df_valid F x_col y_col df) (clean F x_col y_col df) \<and>
   subseq (index (df_valid F x_col y_col df)) (index df) \<and>
   map gp_index (gdf_points gdf_polygon x_col y_col (df_valid F x_col y_col df))
     = index (df_valid F x_col y_col df) \<and>
   map gp_row (gdf_points gdf_polygon x_col y_col (df_valid F x_col y_col df))
     = map snd (df_valid F x_col y_col df)"
proof -
  have v: "subseq (df_valid F x_col y_col df) (clean F x_col y_col df)"
    unfolding df_valid_filter clean_rows by (intro subseq_map subseq_filter_left)
  have i: "subseq (index (df_valid F x_col y_col df)) (index df)"
    unfolding index_df_valid unfolding index_def by (intro subseq_map subseq_filter_left)
  show ?thesis
    using v i by (simp add: df_zero_filter df_invalid_filter gdf_points_index gdf_points_row)
qed

text \<open>
  C7. When no row is valid, a run with the button pressed ends with the session state
  holding the \<open>'error'\<close> entry "No valid data found ..."; it is a finished run, not a
  stopped one. The boundary plays no part: the analysis is the same for every boundary
  frame. All rows are then in the zero or the invalid frame.
\<close>

theorem empty_valid_outcome:
  assumes "df_valid F x_col y_col (read_csv rows) = []"
  shows "script F (Some (Inr gdf_polygon)) (Some (Inr rows)) x_col y_col True session
           = Finished (Some (Error ''No valid data found (check if all your data is 0,0 or invalid).'')) \<and>
         analysis F gdf_polygon (read_csv rows) x_col y_col = analysis F other (read_csv rows) x_col y_col \<and>
         length (df_zero F x_col y_col (read_csv rows)) + length (df_invalid F x_col y_col (read_csv rows))
           = length rows"
proof -
  have "length (read_csv rows) = length rows" by (simp add: read_csv_def)
  then show ?thesis
    using assms lengths_sum [of F x_col y_col "read_csv rows"]
    by (simp add: script_def analysis_def Let_def)
qed

lemma no_valid_rows:
  "df_valid py_float ''x'' ''y'' (read_csv (take 3 scenario_rows)) = []"
  by (simp add: scenario_rows_def read_csv_def enumerate_Suc_eq df_valid_filter coords_def cell_of_def cc
      is_zero_def is_valid_def in_range_def)

theorem empty_valid_outcome_witness:
  "script py_float (Some (Inr square)) (Some (Inr (take 3 scenario_rows))) ''x'' ''y'' True None
     = Finished (Some (Error ''No valid data found (check if all your data is 0,0 or invalid).'')) \<and>
   analysis py_float square (read_csv (take 3 scenario_rows)) ''x'' ''y''
     = analysis py_float \<lparr>unary_union = []\<rparr> (read_csv (take 3 scenario_rows)) ''x'' ''y'' \<and>
   length (df_zero py_float ''x'' ''y'' (read_csv (take 3 scenario_rows)))
     + length (df_invalid py_float ''x'' ''y'' (read_csv (take 3 scenario_rows)))
     = length (take 3 scenario_rows)"
  using empty_valid_outcome [OF no_valid_rows] .

lemma scenario_length: "length (read_csv scenario_rows) = 5"
  by (simp add: scenario_frame)

lemma scenario_valid_nonempty: "df_valid py_float ''x'' ''y'' (read_csv scenario_rows) \<noteq> []"
  by (simp add: scenario_valid)

text \<open>
  C8. When reading the GeoJSON file raises, the run stops with the message of line 51,
  whatever the CSV file, the selected columns, the button and the session state are:
  nothing is classified. The script has no other test of the boundary: with a boundary
  that was read and holds no geometry the run finishes, and both valid rows of the
  scenario are tagged \<open>Outside\<close>, as the second theorem shows.
\<close>

theorem geojson_failure_stops:
  "script F (Some (Inl e)) (Some csv) x_col y_col button session
     = Stopped (''Error reading GeoJSON: '' @ e)"
  by (simp add: script_def)

theorem empty_boundary_not_fatal:
  "script py_float (Some (Inr \<lparr>unary_union = []\<rparr>)) (Some (Inr scenario_rows)) ''x'' ''y'' True None
     = Finished (Some (Analysis
        \<lparr>res_gdf_points =
           [\<lparr>gp_index = 3, gp_row = [(''x'', Float (Fin 10)), (''y'', Float (Fin 20))],
             gp_geometry = (Fin 10, Fin 20), gp_location_status = Outside\<rparr>,
            \<lparr>gp_index = 4, gp_row = [(''x'', Float (Fin (21 / 2))), (''y'', Float (Fin (41 / 2)))],
             gp_geometry = (Fin (21 / 2), Fin (41 / 2)), gp_location_status = Outside\<rparr>],
         res_df_invalid =
           [(1, [(''x'', Text ''abc''), (''y'', Text ''abc'')]),
            (2, [(''x'', Text ''200''), (''y'', Text ''0'')])],
         res_df_zero = [(0, [(''x'', Text ''0''), (''y'', Text ''0'')])],
         res_df_raw_len = 5, res_x_col = ''x'', res_y_col = ''y''\<rparr>))"
  by (simp add: script_def analysis_def Let_def scenario_valid scenario_zero scenario_invalid
      gdf_points_def float_column_def column_def cell_of_def locate_def status_of_def
      scenario_length)

text \<open>
  C2. On the scenario the run gives the zero frame with row 0, the invalid frame with
  rows 1 and 2, and the valid rows 3 and 4, of 5 rows in all; row 4 is \<open>Inside\<close>, and
  row 3, the corner (10, 20) of the square, is \<open>Outside\<close>. The second theorem states that
  the result is not the one with both rows \<open>Inside\<close>.
\<close>

theorem scenario_result:
  "script py_float (Some (Inr square)) (Some (Inr scenario_rows)) ''x'' ''y'' True None
     = Finished (Some (Analysis
        \<lparr>res_gdf_points =
           [\<lparr>gp_index = 3, gp_row = [(''x'', Float (Fin 10)), (''y'', Float (Fin 20))],
             gp_geometry = (Fin 10, Fin 20), gp_location_status = Outside\<rparr>,
            \<lparr>gp_index = 4, gp_row = [(''x'', Float (Fin (21 / 2))), (''y'', Float (Fin (41 / 2)))],
             gp_geometry = (Fin (21 / 2), Fin (41 / 2)), gp_location_status = Inside\<rparr>],
         res_df_invalid =
           [(1, [(''x'', Text ''abc''), (''y'', Text ''abc'')]),
            (2, [(''x'', Text ''200''), (''y'', Text ''0'')])],
         res_df_zero = [(0, [(''x'', Text ''0''), (''y'', Text ''0'')])],
         res_df_raw_len = 5, res_x_col = ''x'', res_y_col = ''y''\<rparr>))"
  by (simp add: script_def analysis_def Let_def scenario_points scenario_zero scenario_invalid
      scenario_valid_nonempty scenario_length)

theorem scenario_row3_not_inside:
  "script py_float (Some (Inr square)) (Some (Inr scenario_rows)) ''x'' ''y'' True None
     \<noteq> Finished (Some (Analysis
        \<lparr>res_gdf_points =
           [\<lparr>gp_index = 3, gp_row = [(''x'', Float (Fin 10)), (''y'', Float (Fin 20))],
             gp_geometry = (Fin 10, Fin 20), gp_location_status = Inside\<rparr>,
            \<lparr>gp_index = 4, gp_row = [(''x'', Float (Fin (21 / 2))), (''y'', Float (Fin (41 / 2)))],
             gp_geometry = (Fin (21 / 2), Fin (41 / 2)), gp_location_status = Inside\<rparr>],
         res_df_invalid =
           [(1, [(''x'', Text ''abc''), (''y'', Text ''abc'')]),
            (2, [(''x'', Text ''200''), (''y'', Text ''0'')])],
         res_df_zero = [(0, [(''x'', Text ''0''), (''y'', Text ''0'')])],
         res_df_raw_len = 5, res_x_col = ''x'', res_y_col = ''y''\<rparr>))"
  by (simp add: script_def analysis_def Let_def scenario_points scenario_zero scenario_invalid
      scenario_valid_nonempty scenario_length)

text \<open>
  C10. A row of \<open>gdf_points\<close> whose point lies on the boundary of the unioned geometry,
  that is on an edge of one of its rings, has the status \<open>Outside\<close>.
\<close>

theorem boundary_point_outside:
  assumes "p \<in> set (gdf_points gdf_polygon x_col y_col valid)"
    and "gp_geometry p = (Fin a, Fin b)"
    and "on_boundary (a, b) (unary_union gdf_polygon)"
  shows "gp_location_status p = Outside"
proof -
  have "locate (a, b) (unary_union gdf_polygon) = Boundary"
    using assms(3) by (simp add: on_boundary_iff)
  then have "\<not> within_geom (Fin a, Fin b) (unary_union gdf_polygon)" by simp
  moreover have "gp_location_status p = status_of (within_geom (gp_geometry p) (unary_union gdf_polygon))"
    using assms(1) by (auto simp: gdf_points_def Let_def)
  ultimately show ?thesis
    using assms(2) by (simp add: status_of_def)
qed

lemma corner_on_boundary: "on_boundary (10, 20) (unary_union square)"
  using loc3 by (simp add: on_boundary_iff)

theorem boundary_point_outside_witness:
  "gp_location_status
     \<lparr>gp_index = 3, gp_row = [(''x'', Float (Fin 10)), (''y'', Float (Fin 20))],
      gp_geometry = (Fin 10, Fin 20), gp_location_status = Outside\<rparr> = Outside \<and>
   on_boundary (10, 20) (unary_union square) \<and>
   \<lparr>gp_index = 3, gp_row = [(''x'', Float (Fin 10)), (''y'', Float (Fin 20))],
      gp_geometry = (Fin 10, Fin 20), gp_location_status = Outside\<rparr>
     \<in> set (gdf_points square ''x'' ''y'' (df_valid py_float ''x'' ''y'' (read_csv scenario_rows)))"
proof -
  let ?p = "\<lparr>gp_index = 3, gp_row = [(''x'', Float (Fin 10)), (''y'', Float (Fin 20))],
      gp_geometry = (Fin 10, Fin 20), gp_location_status = Outside\<rparr>"
  have m: "?p \<in> set (gdf_points square ''x'' ''y'' (df_valid py_float ''x'' ''y'' (read_csv scenario_rows)))"
    by (simp add: scenario_points)
  have g: "gp_geometry ?p = (Fin 10, Fin 20)" by simp
  show ?thesis
    using boundary_point_outside [OF m g corner_on_boundary] m corner_on_boundary by simp
qed

end
